theory Spec2Isabelle
  imports Complex_Main
begin

section \<open>Python values\<close>

text \<open>
  The SDK moves JSON-compatible Python values around: what \<open>response.json()\<close> returns,
  what \<open>model_dump\<close> produces, what is stored in the fields of an \<open>APIError\<close>.
  A \<open>dict\<close> is an association list with string keys (in insertion order); a \<open>str\<close> is
  the list of the bytes of its UTF-8 encoding; a \<open>float\<close> is only ever carried from one
  place to another, never computed with, and is represented by a real number. So the
  strings of the model are the strings that have a UTF-8 encoding (a Python \<open>str\<close> with
  a lone surrogate has none) and its floats are the finite ones.
\<close>

datatype pyval =
    PNone
  | PBool bool
  | PInt int
  | PFloat real
  | PStr string
  | PList "pyval list"
  | PDict "(string \<times> pyval) list"

text \<open>\<open>d.get(key, default)\<close> on a \<open>dict\<close>.\<close>

definition dict_get :: "(string \<times> pyval) list \<Rightarrow> string \<Rightarrow> pyval \<Rightarrow> pyval" where
  "dict_get d k dflt = (case map_of d k of Some v \<Rightarrow> v | None \<Rightarrow> dflt)"

text \<open>\<open>str(n)\<close> for an \<open>int\<close>, as the f-string \<open>f"HTTP {response.status_code}"\<close> formats it.\<close>

fun str_nat :: "nat \<Rightarrow> string" where
  "str_nat n =
     (if n < 10 then [''0123456789'' ! n]
      else str_nat (n div 10) @ [''0123456789'' ! (n mod 10)])"

declare str_nat.simps [simp del]

definition str_int :: "int \<Rightarrow> string" where
  "str_int i = (if i < 0 then CHR ''-'' # str_nat (nat (- i)) else str_nat (nat i))"

section \<open>errors.py\<close>

text \<open>
  \<open>APIError\<close> stores \<open>status_code\<close>, \<open>message\<close>, \<open>code\<close> and \<open>details\<close>. The transport
  fills the last three with whatever the response body holds, so they are Python values
  (\<open>PNone\<close> is \<open>None\<close>). \<open>NotFoundError\<close> and \<open>AlreadyExistsError\<close> are subclasses that
  add \<open>resource\<close> and \<open>id\<close> (here \<open>id'\<close>): record extensions of \<open>APIError\<close>.
\<close>

record APIError =
  status_code :: int
  message :: pyval
  code :: pyval
  details :: pyval

record NotFoundError = APIError +
  resource :: string
  id' :: string

record AlreadyExistsError = APIError +
  resource :: string
  id' :: string

definition is_not_found :: "'a APIError_scheme \<Rightarrow> bool" where
  "is_not_found self \<longleftrightarrow> status_code self = 404 \<or> code self = PStr ''NOT_FOUND''"

definition is_already_exists :: "'a APIError_scheme \<Rightarrow> bool" where
  "is_already_exists self \<longleftrightarrow> status_code self = 409 \<or> code self = PStr ''ALREADY_EXISTS''"

definition is_invalid_input :: "'a APIError_scheme \<Rightarrow> bool" where
  "is_invalid_input self \<longleftrightarrow> status_code self = 400 \<or> code self = PStr ''INVALID_INPUT''"

definition is_server_error :: "'a APIError_scheme \<Rightarrow> bool" where
  "is_server_error self \<longleftrightarrow> status_code self \<ge> 500"

definition new_NotFoundError :: "string \<Rightarrow> string \<Rightarrow> NotFoundError" where
  "new_NotFoundError res i =
     \<lparr>status_code = 404, message = PStr (res @ '' not found: '' @ i),
      code = PStr ''NOT_FOUND'', details = PNone,
      NotFoundError.resource = res, NotFoundError.id' = i\<rparr>"

definition new_AlreadyExistsError :: "string \<Rightarrow> string \<Rightarrow> AlreadyExistsError" where
  "new_AlreadyExistsError res i =
     \<lparr>status_code = 409, message = PStr (res @ '' already exists: '' @ i),
      code = PStr ''ALREADY_EXISTS'', details = PNone,
      AlreadyExistsError.resource = res, AlreadyExistsError.id' = i\<rparr>"

text \<open>
  Everything a client operation can raise. The first three are the SDK's own classes,
  all subclasses of \<open>MAIAError\<close>; the others are raised by Python or by the libraries the
  client calls and are not caught by it: \<open>AttributeError\<close> (a method looked up on a value
  that does not have it), \<open>JSONDecodeError\<close> (a \<open>ValueError\<close>, from \<open>response.json()\<close>),
  the schema library's own validation error (from \<open>model_validate\<close>), and any exception
  of the HTTP library that is not an \<open>httpx.RequestError\<close> (carried as its text).
  \<open>ValidationError field message\<close>; \<open>NetworkError message cause\<close>, the cause being the
  text of the transport's exception.
\<close>

datatype exn =
    ValidationError string string
  | NetworkError string string
  | APIErrorExn APIError
  | AttributeError
  | JSONDecodeError
  | PydanticValidationError
  | OtherException string


section \<open>types.py\<close>

datatype MemoryType = SEMANTIC | EPISODIC | WORKING

fun MemoryType_value :: "MemoryType \<Rightarrow> string" where
  "MemoryType_value SEMANTIC = ''semantic''"
| "MemoryType_value EPISODIC = ''episodic''"
| "MemoryType_value WORKING = ''working''"

datatype MemorySource = USER | EXTRACTED | INFERRED | IMPORTED

fun MemorySource_value :: "MemorySource \<Rightarrow> string" where
  "MemorySource_value USER = ''user''"
| "MemorySource_value EXTRACTED = ''extracted''"
| "MemorySource_value INFERRED = ''inferred''"
| "MemorySource_value IMPORTED = ''imported''"

text \<open>
  The request models. A field declared \<open>T | None = None\<close> is a \<open>T option\<close>;
  \<open>inherit_from_parent: bool = False\<close> is a plain \<open>bool\<close>. Two models may have a field
  of the same name: the selectors are then written with the model's name in front.
\<close>

record NamespaceConfig =
  token_budget :: "int option"
  max_memories :: "int option"
  retention_days :: "int option"
  allowed_types :: "MemoryType list option"
  inherit_from_parent :: bool
  custom_scoring :: "(string \<times> real) list option"

record CreateMemoryInput =
  namespace :: string
  content :: string
  type :: "MemoryType option"
  metadata :: "(string \<times> pyval) list option"
  tags :: "string list option"
  confidence :: "real option"
  source :: "MemorySource option"

record UpdateMemoryInput =
  content :: "string option"
  metadata :: "(string \<times> pyval) list option"
  tags :: "string list option"
  confidence :: "real option"

record SearchMemoriesInput =
  query :: "string option"
  namespace :: "string option"
  types :: "MemoryType list option"
  tags :: "string list option"
  limit :: "int option"
  offset :: "int option"

record CreateNamespaceInput =
  name :: string
  parent :: "string option"
  template :: "string option"
  config :: "NamespaceConfig option"

record UpdateNamespaceInput =
  config :: NamespaceConfig

record ListOptions =
  limit :: "int option"
  offset :: "int option"

record GetContextInput =
  query :: string
  namespace :: "string option"
  token_budget :: "int option"
  system_prompt :: "string option"
  include_scores :: "bool option"
  min_score :: "real option"

text \<open>\<open>SearchMemoriesInput()\<close>: every field at its default.\<close>

definition SearchMemoriesInput_default :: SearchMemoriesInput where
  "SearchMemoriesInput_default =
     \<lparr>SearchMemoriesInput.query = None, SearchMemoriesInput.namespace = None,
      SearchMemoriesInput.types = None, SearchMemoriesInput.tags = None,
      SearchMemoriesInput.limit = None, SearchMemoriesInput.offset = None\<rparr>"

text \<open>
  \<open>model.model_dump(exclude_none=True)\<close>, the only way the client serialises a model:
  a \<open>dict\<close> of the fields in declaration order, a field whose value is \<open>None\<close> left out,
  a nested model dumped the same way. An enum member is a \<open>str\<close> equal to its value. The
  entries of a \<open>metadata\<close> dict are user data, not fields, and are carried as they are.
  \<open>dump_field k f v\<close> is the entry of one optional field.
\<close>

definition dump_field :: "string \<Rightarrow> ('a \<Rightarrow> pyval) \<Rightarrow> 'a option \<Rightarrow> (string \<times> pyval) list" where
  "dump_field k f v = (case v of None \<Rightarrow> [] | Some x \<Rightarrow> [(k, f x)])"

definition dump_enum_MemoryType :: "MemoryType \<Rightarrow> pyval" where
  "dump_enum_MemoryType t = PStr (MemoryType_value t)"

definition dump_enum_MemorySource :: "MemorySource \<Rightarrow> pyval" where
  "dump_enum_MemorySource t = PStr (MemorySource_value t)"

definition dump_str_list :: "string list \<Rightarrow> pyval" where
  "dump_str_list xs = PList (map PStr xs)"

definition dump_type_list :: "MemoryType list \<Rightarrow> pyval" where
  "dump_type_list xs = PList (map dump_enum_MemoryType xs)"

definition dump_float_dict :: "(string \<times> real) list \<Rightarrow> pyval" where
  "dump_float_dict d = PDict (map (\<lambda>(k, v). (k, PFloat v)) d)"

definition NamespaceConfig_model_dump :: "NamespaceConfig \<Rightarrow> pyval" where
  "NamespaceConfig_model_dump c = PDict
     (dump_field ''token_budget'' PInt (NamespaceConfig.token_budget c)
      @ dump_field ''max_memories'' PInt (max_memories c)
      @ dump_field ''retention_days'' PInt (retention_days c)
      @ dump_field ''allowed_types'' dump_type_list (allowed_types c)
      @ [(''inherit_from_parent'', PBool (inherit_from_parent c))]
      @ dump_field ''custom_scoring'' dump_float_dict (custom_scoring c))"

definition CreateMemoryInput_model_dump :: "CreateMemoryInput \<Rightarrow> pyval" where
  "CreateMemoryInput_model_dump i = PDict
     ([(''namespace'', PStr (CreateMemoryInput.namespace i)),
       (''content'', PStr (CreateMemoryInput.content i))]
      @ dump_field ''type'' dump_enum_MemoryType (type i)
      @ dump_field ''metadata'' PDict (CreateMemoryInput.metadata i)
      @ dump_field ''tags'' dump_str_list (CreateMemoryInput.tags i)
      @ dump_field ''confidence'' PFloat (CreateMemoryInput.confidence i)
      @ dump_field ''source'' dump_enum_MemorySource (source i))"

definition UpdateMemoryInput_model_dump :: "UpdateMemoryInput \<Rightarrow> pyval" where
  "UpdateMemoryInput_model_dump i = PDict
     (dump_field ''content'' PStr (UpdateMemoryInput.content i)
      @ dump_field ''metadata'' PDict (UpdateMemoryInput.metadata i)
      @ dump_field ''tags'' dump_str_list (UpdateMemoryInput.tags i)
      @ dump_field ''confidence'' PFloat (UpdateMemoryInput.confidence i))"

definition SearchMemoriesInput_model_dump :: "SearchMemoriesInput \<Rightarrow> pyval" where
  "SearchMemoriesInput_model_dump i = PDict
     (dump_field ''query'' PStr (SearchMemoriesInput.query i)
      @ dump_field ''namespace'' PStr (SearchMemoriesInput.namespace i)
      @ dump_field ''types'' dump_type_list (types i)
      @ dump_field ''tags'' dump_str_list (SearchMemoriesInput.tags i)
      @ dump_field ''limit'' PInt (SearchMemoriesInput.limit i)
      @ dump_field ''offset'' PInt (SearchMemoriesInput.offset i))"

definition CreateNamespaceInput_model_dump :: "CreateNamespaceInput \<Rightarrow> pyval" where
  "CreateNamespaceInput_model_dump i = PDict
     ([(''name'', PStr (name i))]
      @ dump_field ''parent'' PStr (parent i)
      @ dump_field ''template'' PStr (template i)
      @ dump_field ''config'' NamespaceConfig_model_dump (CreateNamespaceInput.config i))"

definition UpdateNamespaceInput_model_dump :: "UpdateNamespaceInput \<Rightarrow> pyval" where
  "UpdateNamespaceInput_model_dump i = PDict
     [(''config'', NamespaceConfig_model_dump (UpdateNamespaceInput.config i))]"

definition GetContextInput_model_dump :: "GetContextInput \<Rightarrow> pyval" where
  "GetContextInput_model_dump i = PDict
     ([(''query'', PStr (GetContextInput.query i))]
      @ dump_field ''namespace'' PStr (GetContextInput.namespace i)
      @ dump_field ''token_budget'' PInt (GetContextInput.token_budget i)
      @ dump_field ''system_prompt'' PStr (system_prompt i)
      @ dump_field ''include_scores'' PBool (include_scores i)
      @ dump_field ''min_score'' PFloat (min_score i))"

text \<open>
  The response models (\<open>Memory\<close>, \<open>Namespace\<close>, \<open>ListResponse[T]\<close>, ...) are built by the
  schema library's \<open>model_validate\<close>. The client only names the model to build.
\<close>

datatype model =
    HealthResponse
  | Stats
  | Memory
  | Namespace
  | ContextResponse
  | ListResponse_SearchResult
  | ListResponse_Namespace
  | ListResponse_Memory

section \<open>client.py: the transport\<close>

text \<open>
  \<open>urllib.parse.quote(s, safe)\<close>: a byte that is a letter, a digit or one of \<open>_ . - ~\<close>, or
  an ASCII character listed in \<open>safe\<close>, stays; every other byte becomes \<open>%XX\<close>, its
  value as two upper-case hexadecimal digits.
\<close>

definition always_safe :: string where
  "always_safe =
     ''ABCDEFGHIJKLMNOPQRSTUVWXYZabcdefghijklmnopqrstuvwxyz0123456789_.-~''"

definition hex_digit :: "nat \<Rightarrow> char" where
  "hex_digit n = ''0123456789ABCDEF'' ! n"

definition percent_byte :: "char \<Rightarrow> string" where
  "percent_byte c =
     [CHR ''%'', hex_digit ((of_char c :: nat) div 16), hex_digit ((of_char c :: nat) mod 16)]"

definition quote :: "string \<Rightarrow> string \<Rightarrow> string" where
  "quote s safe =
     concat (map (\<lambda>c. if c \<in> set always_safe \<or> (c \<in> set safe \<and> (of_char c :: nat) < 128)
                        then [c] else percent_byte c) s)"

text \<open>\<open>s.rstrip(chars)\<close>: the trailing characters that occur in \<open>chars\<close> are removed.\<close>

definition rstrip :: "string \<Rightarrow> string \<Rightarrow> string" where
  "rstrip s chars = rev (dropWhile (\<lambda>c. c \<in> set chars) (rev s))"

text \<open>
  The HTTP library. An \<open>httpx.Client\<close> (or \<open>AsyncClient\<close>) is what it was constructed
  with. A call of its \<open>request\<close> method has a method, a path, an optional JSON body and
  optional query parameters; it raises \<open>httpx.RequestError\<close>, or raises some other
  exception (each carried here as the text of the exception), or returns a response.
  Only the first is caught by \<open>except httpx.RequestError\<close>. Of a response the client reads
  \<open>status_code\<close>, \<open>content\<close> (the body's bytes), \<open>text\<close> (the body decoded; here
  \<open>text'\<close>) and \<open>json()\<close>, which is \<open>None\<close> when parsing the body raises (a \<open>ValueError\<close>).
\<close>

record httpx_client =
  base_url :: string
  timeout :: real
  headers :: "(string \<times> string) list"

record request =
  "method" :: string
  path :: string
  json :: "pyval option"
  params :: "(string \<times> pyval) list option"

record response =
  status_code :: int
  content :: string
  text' :: string
  json :: "pyval option"

datatype outcome = RequestError string | Raised string | Response response

text \<open>
  What a client operation runs against: the network (what \<open>httpx\<close> answers to a call on a
  given client) and the schema library's \<open>model_validate\<close> (\<open>None\<close> when it raises).
  The calls made on the network are recorded, in order, in a log that every operation
  takes and returns.
\<close>

record 'o env =
  httpx_request :: "httpx_client \<Rightarrow> request \<Rightarrow> outcome"
  model_validate :: "model \<Rightarrow> pyval \<Rightarrow> 'o option"

type_synonym call_log = "(httpx_client \<times> request) list"

definition DEFAULT_BASE_URL :: string where
  "DEFAULT_BASE_URL = ''http://localhost:8080''"

definition DEFAULT_TIMEOUT :: real where
  "DEFAULT_TIMEOUT = 30"

record MAIAClient =
  base_url :: string
  client :: httpx_client

text \<open>\<open>MAIAClient.__init__(base_url, timeout, headers)\<close>; \<open>headers or {}\<close>.\<close>

definition MAIAClient_init ::
  "string \<Rightarrow> real \<Rightarrow> (string \<times> string) list option \<Rightarrow> MAIAClient" where
  "MAIAClient_init url tmo hdrs =
     (let b = rstrip url ''/'' in
      \<lparr>MAIAClient.base_url = b,
       MAIAClient.client = \<lparr>httpx_client.base_url = b, timeout = tmo,
                 headers = (case hdrs of None \<Rightarrow> [] | Some h \<Rightarrow> h)\<rparr>\<rparr>)"

text \<open>\<open>MAIAClient._request(method, path, json, params)\<close>.\<close>

definition sync_request ::
  "'o env \<Rightarrow> MAIAClient \<Rightarrow> call_log \<Rightarrow> string \<Rightarrow> string \<Rightarrow> pyval option
     \<Rightarrow> (string \<times> pyval) list option \<Rightarrow> (exn + pyval) \<times> call_log" where
  "sync_request env self calls meth pth body prms =
     (let req = \<lparr>method = meth, path = pth, request.json = body, params = prms\<rparr>;
          calls' = calls @ [(MAIAClient.client self, req)]
      in case httpx_request env (MAIAClient.client self) req of
           RequestError e \<Rightarrow> (Inl (NetworkError (''Request failed: '' @ e) e), calls')
         | Raised x \<Rightarrow> (Inl (OtherException x), calls')
         | Response r \<Rightarrow>
             if response.status_code r \<ge> 400 then
               (case response.json r of
                  Some (PDict data) \<Rightarrow>
                    (Inl (APIErrorExn
                       \<lparr>APIError.status_code = response.status_code r,
                        message = dict_get data ''error''
                                    (PStr (''HTTP '' @ str_int (response.status_code r))),
                        code = dict_get data ''code'' PNone,
                        details = dict_get data ''details'' PNone\<rparr>), calls')
                | Some _ \<Rightarrow> (Inl AttributeError, calls')
                | None \<Rightarrow>
                    (Inl (APIErrorExn
                       \<lparr>APIError.status_code = response.status_code r,
                        message = PStr (if text' r \<noteq> [] then text' r
                                        else ''HTTP '' @ str_int (response.status_code r)),
                        code = PNone,
                        details = PNone\<rparr>), calls'))
             else if response.content r \<noteq> [] then
               (case response.json r of
                  Some data \<Rightarrow> (Inr data, calls')
                | None \<Rightarrow> (Inl JSONDecodeError, calls'))
             else (Inr PNone, calls'))"

text \<open>
  \<open>data = self._request(...); return M.model_validate(data)\<close>: an exception of the request
  propagates, and so does the one \<open>model_validate\<close> raises.
\<close>

definition validate_result ::
  "'o env \<Rightarrow> model \<Rightarrow> (exn + pyval) \<times> call_log \<Rightarrow> (exn + 'o) \<times> call_log" where
  "validate_result env m r =
     (case fst r of
        Inl e \<Rightarrow> (Inl e, snd r)
      | Inr data \<Rightarrow>
          (case model_validate env m data of
             Some obj \<Rightarrow> (Inr obj, snd r)
           | None \<Rightarrow> (Inl PydanticValidationError, snd r)))"

text \<open>\<open>self._request(...)\<close> as a statement: the result is dropped, the method returns \<open>None\<close>.\<close>

definition discard_result :: "(exn + pyval) \<times> call_log \<Rightarrow> (exn + unit) \<times> call_log" where
  "discard_result r = (case fst r of Inl e \<Rightarrow> (Inl e, snd r) | Inr data \<Rightarrow> (Inr (), snd r))"

section \<open>client.py: the operations of MAIAClient\<close>

text \<open>
  The methods of the synchronous client.
  Each operation takes the environment, the client and the log of calls so far, and
  returns what the method returns or raises (\<open>Inl\<close> the exception) with the log after it.
  \<open>if not s\<close> on a \<open>str\<close> is \<open>s = []\<close>.
\<close>

definition health :: "'o env \<Rightarrow> MAIAClient \<Rightarrow> call_log \<Rightarrow> (exn + 'o) \<times> call_log" where
  "health env self calls =
     validate_result env HealthResponse (sync_request env self calls ''GET'' ''/health'' None None)"

definition ready :: "'o env \<Rightarrow> MAIAClient \<Rightarrow> call_log \<Rightarrow> (exn + unit) \<times> call_log" where
  "ready env self calls =
     discard_result (sync_request env self calls ''GET'' ''/ready'' None None)"

definition stats :: "'o env \<Rightarrow> MAIAClient \<Rightarrow> call_log \<Rightarrow> (exn + 'o) \<times> call_log" where
  "stats env self calls =
     validate_result env Stats (sync_request env self calls ''GET'' ''/v1/stats'' None None)"

definition create_memory ::
  "'o env \<Rightarrow> MAIAClient \<Rightarrow> call_log \<Rightarrow> CreateMemoryInput \<Rightarrow> (exn + 'o) \<times> call_log" where
  "create_memory env self calls inp =
     (if CreateMemoryInput.namespace inp = [] then
        (Inl (ValidationError ''namespace'' ''namespace is required''), calls)
      else if CreateMemoryInput.content inp = [] then
        (Inl (ValidationError ''content'' ''content is required''), calls)
      else validate_result env Memory
             (sync_request env self calls ''POST'' ''/v1/memories''
                (Some (CreateMemoryInput_model_dump inp)) None))"

definition get_memory :: "'o env \<Rightarrow> MAIAClient \<Rightarrow> call_log \<Rightarrow> string \<Rightarrow> (exn + 'o) \<times> call_log" where
  "get_memory env self calls ident =
     (if ident = [] then (Inl (ValidationError ''id'' ''id is required''), calls)
      else validate_result env Memory
             (sync_request env self calls ''GET'' (''/v1/memories/'' @ quote ident [])
                None None))"

definition update_memory ::
  "'o env \<Rightarrow> MAIAClient \<Rightarrow> call_log \<Rightarrow> string \<Rightarrow> UpdateMemoryInput \<Rightarrow> (exn + 'o) \<times> call_log" where
  "update_memory env self calls ident inp =
     (if ident = [] then (Inl (ValidationError ''id'' ''id is required''), calls)
      else validate_result env Memory
             (sync_request env self calls ''PUT'' (''/v1/memories/'' @ quote ident [])
                (Some (UpdateMemoryInput_model_dump inp)) None))"

definition delete_memory :: "'o env \<Rightarrow> MAIAClient \<Rightarrow> call_log \<Rightarrow> string \<Rightarrow> (exn + unit) \<times> call_log" where
  "delete_memory env self calls ident =
     (if ident = [] then (Inl (ValidationError ''id'' ''id is required''), calls)
      else discard_result
             (sync_request env self calls ''DELETE'' (''/v1/memories/'' @ quote ident [])
                None None))"

definition search_memories ::
  "'o env \<Rightarrow> MAIAClient \<Rightarrow> call_log \<Rightarrow> SearchMemoriesInput option \<Rightarrow> (exn + 'o) \<times> call_log" where
  "search_memories env self calls inp =
     (let inp' = (case inp of None \<Rightarrow> SearchMemoriesInput_default | Some i \<Rightarrow> i)
      in validate_result env ListResponse_SearchResult
           (sync_request env self calls ''POST'' ''/v1/memories/search''
              (Some (SearchMemoriesInput_model_dump inp')) None))"

definition create_namespace ::
  "'o env \<Rightarrow> MAIAClient \<Rightarrow> call_log \<Rightarrow> CreateNamespaceInput \<Rightarrow> (exn + 'o) \<times> call_log" where
  "create_namespace env self calls inp =
     (if name inp = [] then (Inl (ValidationError ''name'' ''name is required''), calls)
      else validate_result env Namespace
             (sync_request env self calls ''POST'' ''/v1/namespaces''
                (Some (CreateNamespaceInput_model_dump inp)) None))"

definition get_namespace :: "'o env \<Rightarrow> MAIAClient \<Rightarrow> call_log \<Rightarrow> string \<Rightarrow> (exn + 'o) \<times> call_log" where
  "get_namespace env self calls id_or_name =
     (if id_or_name = [] then
        (Inl (ValidationError ''id_or_name'' ''id or name is required''), calls)
      else validate_result env Namespace
             (sync_request env self calls ''GET'' (''/v1/namespaces/'' @ quote id_or_name [])
                None None))"

definition update_namespace ::
  "'o env \<Rightarrow> MAIAClient \<Rightarrow> call_log \<Rightarrow> string \<Rightarrow> UpdateNamespaceInput \<Rightarrow> (exn + 'o) \<times> call_log" where
  "update_namespace env self calls ident inp =
     (if ident = [] then (Inl (ValidationError ''id'' ''id is required''), calls)
      else validate_result env Namespace
             (sync_request env self calls ''PUT'' (''/v1/namespaces/'' @ quote ident [])
                (Some (UpdateNamespaceInput_model_dump inp)) None))"

definition delete_namespace :: "'o env \<Rightarrow> MAIAClient \<Rightarrow> call_log \<Rightarrow> string \<Rightarrow> (exn + unit) \<times> call_log" where
  "delete_namespace env self calls ident =
     (if ident = [] then (Inl (ValidationError ''id'' ''id is required''), calls)
      else discard_result
             (sync_request env self calls ''DELETE'' (''/v1/namespaces/'' @ quote ident [])
                None None))"

text \<open>
  A \<open>ListOptions\<close> object is always true in \<open>if options\<close>; \<open>if options.limit\<close> is true
  when the limit is neither \<open>None\<close> nor 0. \<open>params or None\<close> is \<open>None\<close> for the empty dict.
\<close>

definition list_namespaces ::
  "'o env \<Rightarrow> MAIAClient \<Rightarrow> call_log \<Rightarrow> ListOptions option \<Rightarrow> (exn + 'o) \<times> call_log" where
  "list_namespaces env self calls options =
     (let prms =
            (case options of
               None \<Rightarrow> []
             | Some opts \<Rightarrow>
                 (case ListOptions.limit opts of
                    Some n \<Rightarrow> if n \<noteq> 0 then [(''limit'', PInt n)] else []
                  | None \<Rightarrow> [])
                 @ (case ListOptions.offset opts of
                      Some n \<Rightarrow> if n \<noteq> 0 then [(''offset'', PInt n)] else []
                    | None \<Rightarrow> []))
      in validate_result env ListResponse_Namespace
           (sync_request env self calls ''GET'' ''/v1/namespaces'' None
              (if prms = [] then None else Some prms)))"

definition list_namespace_memories ::
  "'o env \<Rightarrow> MAIAClient \<Rightarrow> call_log \<Rightarrow> string \<Rightarrow> ListOptions option \<Rightarrow> (exn + 'o) \<times> call_log" where
  "list_namespace_memories env self calls ns options =
     (if ns = [] then
        (Inl (ValidationError ''namespace'' ''namespace is required''), calls)
      else
        (let prms =
               (case options of
                  None \<Rightarrow> []
                | Some opts \<Rightarrow>
                    (case ListOptions.limit opts of
                       Some n \<Rightarrow> if n \<noteq> 0 then [(''limit'', PInt n)] else []
                     | None \<Rightarrow> [])
                    @ (case ListOptions.offset opts of
                         Some n \<Rightarrow> if n \<noteq> 0 then [(''offset'', PInt n)] else []
                       | None \<Rightarrow> []))
         in validate_result env ListResponse_Memory
              (sync_request env self calls ''GET''
                 (''/v1/namespaces/'' @ quote ns [] @ ''/memories'') None
                 (if prms = [] then None else Some prms))))"

definition get_context ::
  "'o env \<Rightarrow> MAIAClient \<Rightarrow> call_log \<Rightarrow> GetContextInput \<Rightarrow> (exn + 'o) \<times> call_log" where
  "get_context env self calls inp =
     (if GetContextInput.query inp = [] then
        (Inl (ValidationError ''query'' ''query is required''), calls)
      else validate_result env ContextResponse
             (sync_request env self calls ''POST'' ''/v1/context''
                (Some (GetContextInput_model_dump inp)) None))"

definition remember ::
  "'o env \<Rightarrow> MAIAClient \<Rightarrow> call_log \<Rightarrow> string \<Rightarrow> string \<Rightarrow> (exn + 'o) \<times> call_log" where
  "remember env self calls ns cont =
     create_memory env self calls
       \<lparr>CreateMemoryInput.namespace = ns, CreateMemoryInput.content = cont,
        type = Some SEMANTIC, CreateMemoryInput.metadata = None,
        CreateMemoryInput.tags = None, CreateMemoryInput.confidence = Some 1.0,
        source = Some USER\<rparr>"

text \<open>
  \<open>recall(query, *, namespace, token_budget, system_prompt, min_score, include_scores)\<close>:
  the keyword arguments default to \<open>None\<close>.
\<close>

definition recall ::
  "'o env \<Rightarrow> MAIAClient \<Rightarrow> call_log \<Rightarrow> string \<Rightarrow> string option \<Rightarrow> int option \<Rightarrow> string option
     \<Rightarrow> real option \<Rightarrow> bool option \<Rightarrow> (exn + 'o) \<times> call_log" where
  "recall env self calls q ns budget prompt score scores =
     get_context env self calls
       \<lparr>GetContextInput.query = q, GetContextInput.namespace = ns,
        GetContextInput.token_budget = budget, system_prompt = prompt,
        include_scores = scores, min_score = score\<rparr>"

text \<open>\<open>forget\<close> calls \<open>delete_memory\<close> as a statement and returns \<open>None\<close> itself.\<close>

definition forget :: "'o env \<Rightarrow> MAIAClient \<Rightarrow> call_log \<Rightarrow> string \<Rightarrow> (exn + unit) \<times> call_log" where
  "forget env self calls ident =
     (case delete_memory env self calls ident of
        (Inl e, calls') \<Rightarrow> (Inl e, calls')
      | (Inr u, calls') \<Rightarrow> (Inr (), calls'))"

section \<open>client.py: AsyncMAIAClient\<close>

text \<open>
  The asynchronous client is a second class with the same methods, each \<open>async def\<close>
  and awaiting the transport call. Awaiting changes when the caller runs, not what the
  method computes, so each method is again a function from its arguments and the
  network's answer to its result; the definitions below are read off the second class.
  An \<open>httpx.AsyncClient\<close> is, like an \<open>httpx.Client\<close>, what it was constructed with.
\<close>

record AsyncMAIAClient =
  base_url :: string
  client :: httpx_client

definition AsyncMAIAClient_init ::
  "string \<Rightarrow> real \<Rightarrow> (string \<times> string) list option \<Rightarrow> AsyncMAIAClient" where
  "AsyncMAIAClient_init url tmo hdrs =
     (let b = rstrip url ''/'' in
      \<lparr>AsyncMAIAClient.base_url = b,
       AsyncMAIAClient.client = \<lparr>httpx_client.base_url = b, timeout = tmo,
                 headers = (case hdrs of None \<Rightarrow> [] | Some h \<Rightarrow> h)\<rparr>\<rparr>)"

text \<open>\<open>AsyncMAIAClient._request(method, path, json, params)\<close>.\<close>

definition async_request ::
  "'o env \<Rightarrow> AsyncMAIAClient \<Rightarrow> call_log \<Rightarrow> string \<Rightarrow> string \<Rightarrow> pyval option
     \<Rightarrow> (string \<times> pyval) list option \<Rightarrow> (exn + pyval) \<times> call_log" where
  "async_request env self calls meth pth body prms =
     (let req = \<lparr>method = meth, path = pth, request.json = body, params = prms\<rparr>;
          calls' = calls @ [(AsyncMAIAClient.client self, req)]
      in case httpx_request env (AsyncMAIAClient.client self) req of
           RequestError e \<Rightarrow> (Inl (NetworkError (''Request failed: '' @ e) e), calls')
         | Raised x \<Rightarrow> (Inl (OtherException x), calls')
         | Response r \<Rightarrow>
             if response.status_code r \<ge> 400 then
               (case response.json r of
                  Some (PDict data) \<Rightarrow>
                    (Inl (APIErrorExn
                       \<lparr>APIError.status_code = response.status_code r,
                        message = dict_get data ''error''
                                    (PStr (''HTTP '' @ str_int (response.status_code r))),
                        code = dict_get data ''code'' PNone,
                        details = dict_get data ''details'' PNone\<rparr>), calls')
                | Some _ \<Rightarrow> (Inl AttributeError, calls')
                | None \<Rightarrow>
                    (Inl (APIErrorExn
                       \<lparr>APIError.status_code = response.status_code r,
                        message = PStr (if text' r \<noteq> [] then text' r
                                        else ''HTTP '' @ str_int (response.status_code r)),
                        code = PNone,
                        details = PNone\<rparr>), calls'))
             else if response.content r \<noteq> [] then
               (case response.json r of
                  Some data \<Rightarrow> (Inr data, calls')
                | None \<Rightarrow> (Inl JSONDecodeError, calls'))
             else (Inr PNone, calls'))"

section \<open>client.py: the operations of AsyncMAIAClient\<close>

text \<open>
  The methods of the asynchronous client.
  Each operation takes the environment, the client and the log of calls so far, and
  returns what the method returns or raises (\<open>Inl\<close> the exception) with the log after it.
  \<open>if not s\<close> on a \<open>str\<close> is \<open>s = []\<close>.
\<close>

definition async_health :: "'o env \<Rightarrow> AsyncMAIAClient \<Rightarrow> call_log \<Rightarrow> (exn + 'o) \<times> call_log" where
  "async_health env self calls =
     validate_result env HealthResponse (async_request env self calls ''GET'' ''/health'' None None)"

definition async_ready :: "'o env \<Rightarrow> AsyncMAIAClient \<Rightarrow> call_log \<Rightarrow> (exn + unit) \<times> call_log" where
  "async_ready env self calls =
     discard_result (async_request env self calls ''GET'' ''/ready'' None None)"

definition async_stats :: "'o env \<Rightarrow> AsyncMAIAClient \<Rightarrow> call_log \<Rightarrow> (exn + 'o) \<times> call_log" where
  "async_stats env self calls =
     validate_result env Stats (async_request env self calls ''GET'' ''/v1/stats'' None None)"

definition async_create_memory ::
  "'o env \<Rightarrow> AsyncMAIAClient \<Rightarrow> call_log \<Rightarrow> CreateMemoryInput \<Rightarrow> (exn + 'o) \<times> call_log" where
  "async_create_memory env self calls inp =
     (if CreateMemoryInput.namespace inp = [] then
        (Inl (ValidationError ''namespace'' ''namespace is required''), calls)
      else if CreateMemoryInput.content inp = [] then
        (Inl (ValidationError ''content'' ''content is required''), calls)
      else validate_result env Memory
             (async_request env self calls ''POST'' ''/v1/memories''
                (Some (CreateMemoryInput_model_dump inp)) None))"

definition async_get_memory :: "'o env \<Rightarrow> AsyncMAIAClient \<Rightarrow> call_log \<Rightarrow> string \<Rightarrow> (exn + 'o) \<times> call_log" where
  "async_get_memory env self calls ident =
     (if ident = [] then (Inl (ValidationError ''id'' ''id is required''), calls)
      else validate_result env Memory
             (async_request env self calls ''GET'' (''/v1/memories/'' @ quote ident [])
                None None))"

definition async_update_memory ::
  "'o env \<Rightarrow> AsyncMAIAClient \<Rightarrow> call_log \<Rightarrow> string \<Rightarrow> UpdateMemoryInput \<Rightarrow> (exn + 'o) \<times> call_log" where
  "async_update_memory env self calls ident inp =
     (if ident = [] then (Inl (ValidationError ''id'' ''id is required''), calls)
      else validate_result env Memory
             (async_request env self calls ''PUT'' (''/v1/memories/'' @ quote ident [])
                (Some (UpdateMemoryInput_model_dump inp)) None))"

definition async_delete_memory :: "'o env \<Rightarrow> AsyncMAIAClient \<Rightarrow> call_log \<Rightarrow> string \<Rightarrow> (exn + unit) \<times> call_log" where
  "async_delete_memory env self calls ident =
     (if ident = [] then (Inl (ValidationError ''id'' ''id is required''), calls)
      else discard_result
             (async_request env self calls ''DELETE'' (''/v1/memories/'' @ quote ident [])
                None None))"

definition async_search_memories ::
  "'o env \<Rightarrow> AsyncMAIAClient \<Rightarrow> call_log \<Rightarrow> SearchMemoriesInput option \<Rightarrow> (exn + 'o) \<times> call_log" where
  "async_search_memories env self calls inp =
     (let inp' = (case inp of None \<Rightarrow> SearchMemoriesInput_default | Some i \<Rightarrow> i)
      in validate_result env ListResponse_SearchResult
           (async_request env self calls ''POST'' ''/v1/memories/search''
              (Some (SearchMemoriesInput_model_dump inp')) None))"

definition async_create_namespace ::
  "'o env \<Rightarrow> AsyncMAIAClient \<Rightarrow> call_log \<Rightarrow> CreateNamespaceInput \<Rightarrow> (exn + 'o) \<times> call_log" where
  "async_create_namespace env self calls inp =
     (if name inp = [] then (Inl (ValidationError ''name'' ''name is required''), calls)
      else validate_result env Namespace
             (async_request env self calls ''POST'' ''/v1/namespaces''
                (Some (CreateNamespaceInput_model_dump inp)) None))"

definition async_get_namespace :: "'o env \<Rightarrow> AsyncMAIAClient \<Rightarrow> call_log \<Rightarrow> string \<Rightarrow> (exn + 'o) \<times> call_log" where
  "async_get_namespace env self calls id_or_name =
     (if id_or_name = [] then
        (Inl (ValidationError ''id_or_name'' ''id or name is required''), calls)
      else validate_result env Namespace
             (async_request env self calls ''GET'' (''/v1/namespaces/'' @ quote id_or_name [])
                None None))"

definition async_update_namespace ::
  "'o env \<Rightarrow> AsyncMAIAClient \<Rightarrow> call_log \<Rightarrow> string \<Rightarrow> UpdateNamespaceInput \<Rightarrow> (exn + 'o) \<times> call_log" where
  "async_update_namespace env self calls ident inp =
     (if ident = [] then (Inl (ValidationError ''id'' ''id is required''), calls)
      else validate_result env Namespace
             (async_request env self calls ''PUT'' (''/v1/namespaces/'' @ quote ident [])
                (Some (UpdateNamespaceInput_model_dump inp)) None))"

definition async_delete_namespace :: "'o env \<Rightarrow> AsyncMAIAClient \<Rightarrow> call_log \<Rightarrow> string \<Rightarrow> (exn + unit) \<times> call_log" where
  "async_delete_namespace env self calls ident =
     (if ident = [] then (Inl (ValidationError ''id'' ''id is required''), calls)
      else discard_result
             (async_request env self calls ''DELETE'' (''/v1/namespaces/'' @ quote ident [])
                None None))"

text \<open>
  A \<open>ListOptions\<close> object is always true in \<open>if options\<close>; \<open>if options.limit\<close> is true
  when the limit is neither \<open>None\<close> nor 0. \<open>params or None\<close> is \<open>None\<close> for the empty dict.
\<close>

definition async_list_namespaces ::
  "'o env \<Rightarrow> AsyncMAIAClient \<Rightarrow> call_log \<Rightarrow> ListOptions option \<Rightarrow> (exn + 'o) \<times> call_log" where
  "async_list_namespaces env self calls options =
     (let prms =
            (case options of
               None \<Rightarrow> []
             | Some opts \<Rightarrow>
                 (case ListOptions.limit opts of
                    Some n \<Rightarrow> if n \<noteq> 0 then [(''limit'', PInt n)] else []
                  | None \<Rightarrow> [])
                 @ (case ListOptions.offset opts of
                      Some n \<Rightarrow> if n \<noteq> 0 then [(''offset'', PInt n)] else []
                    | None \<Rightarrow> []))
      in validate_result env ListResponse_Namespace
           (async_request env self calls ''GET'' ''/v1/namespaces'' None
              (if prms = [] then None else Some prms)))"

definition async_list_namespace_memories ::
  "'o env \<Rightarrow> AsyncMAIAClient \<Rightarrow> call_log \<Rightarrow> string \<Rightarrow> ListOptions option \<Rightarrow> (exn + 'o) \<times> call_log" where
  "async_list_namespace_memories env self calls ns options =
     (if ns = [] then
        (Inl (ValidationError ''namespace'' ''namespace is required''), calls)
      else
        (let prms =
               (case options of
                  None \<Rightarrow> []
                | Some opts \<Rightarrow>
                    (case ListOptions.limit opts of
                       Some n \<Rightarrow> if n \<noteq> 0 then [(''limit'', PInt n)] else []
                     | None \<Rightarrow> [])
                    @ (case ListOptions.offset opts of
                         Some n \<Rightarrow> if n \<noteq> 0 then [(''offset'', PInt n)] else []
                       | None \<Rightarrow> []))
         in validate_result env ListResponse_Memory
              (async_request env self calls ''GET''
                 (''/v1/namespaces/'' @ quote ns [] @ ''/memories'') None
                 (if prms = [] then None else Some prms))))"

definition async_get_context ::
  "'o env \<Rightarrow> AsyncMAIAClient \<Rightarrow> call_log \<Rightarrow> GetContextInput \<Rightarrow> (exn + 'o) \<times> call_log" where
  "async_get_context env self calls inp =
     (if GetContextInput.query inp = [] then
        (Inl (ValidationError ''query'' ''query is required''), calls)
      else validate_result env ContextResponse
             (async_request env self calls ''POST'' ''/v1/context''
                (Some (GetContextInput_model_dump inp)) None))"

definition async_remember ::
  "'o env \<Rightarrow> AsyncMAIAClient \<Rightarrow> call_log \<Rightarrow> string \<Rightarrow> string \<Rightarrow> (exn + 'o) \<times> call_log" where
  "async_remember env self calls ns cont =
     async_create_memory env self calls
       \<lparr>CreateMemoryInput.namespace = ns, CreateMemoryInput.content = cont,
        type = Some SEMANTIC, CreateMemoryInput.metadata = None,
        CreateMemoryInput.tags = None, CreateMemoryInput.confidence = Some 1.0,
        source = Some USER\<rparr>"

text \<open>
  \<open>recall(query, *, namespace, token_budget, system_prompt, min_score, include_scores)\<close>:
  the keyword arguments default to \<open>None\<close>.
\<close>

definition async_recall ::
  "'o env \<Rightarrow> AsyncMAIAClient \<Rightarrow> call_log \<Rightarrow> string \<Rightarrow> string option \<Rightarrow> int option \<Rightarrow> string option
     \<Rightarrow> real option \<Rightarrow> bool option \<Rightarrow> (exn + 'o) \<times> call_log" where
  "async_recall env self calls q ns budget prompt score scores =
     async_get_context env self calls
       \<lparr>GetContextInput.query = q, GetContextInput.namespace = ns,
        GetContextInput.token_budget = budget, system_prompt = prompt,
        include_scores = scores, min_score = score\<rparr>"

text \<open>\<open>forget\<close> calls \<open>delete_memory\<close> as a statement and returns \<open>None\<close> itself.\<close>

definition async_forget :: "'o env \<Rightarrow> AsyncMAIAClient \<Rightarrow> call_log \<Rightarrow> string \<Rightarrow> (exn + unit) \<times> call_log" where
  "async_forget env self calls ident =
     (case async_delete_memory env self calls ident of
        (Inl e, calls') \<Rightarrow> (Inl e, calls')
      | (Inr u, calls') \<Rightarrow> (Inr (), calls'))"

section \<open>Stand-ins for the network and the schema library\<close>

text \<open>
  For running an operation on a concrete input, as the test-suite does with a mocked
  route: a network that gives every call the same outcome, and a \<open>model_validate\<close>
  that accepts every value and returns it.
\<close>

definition always :: "outcome \<Rightarrow> httpx_client \<Rightarrow> request \<Rightarrow> outcome" where
  "always out c r = out"

definition accept_all :: "model \<Rightarrow> pyval \<Rightarrow> pyval option" where
  "accept_all m v = Some v"

text \<open>
  A response whose body is the given text and is not JSON, and a response whose body
  is the given text and parses to the given value.
\<close>

definition text_response :: "int \<Rightarrow> string \<Rightarrow> response" where
  "text_response s b =
     \<lparr>response.status_code = s, response.content = b, text' = b, response.json = None\<rparr>"

definition json_response :: "int \<Rightarrow> string \<Rightarrow> pyval \<Rightarrow> response" where
  "json_response s b j =
     \<lparr>response.status_code = s, response.content = b, text' = b, response.json = Some j\<rparr>"

text \<open>Two responses of the test-suite: a memory that is not found, a deletion.\<close>

definition not_found_response :: response where
  \<open>not_found_response =
     json_response 404 ''{"error": "memory not found", "code": "NOT_FOUND"}''
       (PDict [(''error'', PStr ''memory not found''), (''code'', PStr ''NOT_FOUND'')])\<close>

definition deleted_response :: response where
  \<open>deleted_response =
     json_response 200 ''{"deleted": true}'' (PDict [(''deleted'', PBool True)])\<close>

definition mock :: "outcome \<Rightarrow> pyval env" where
  "mock out = \<lparr>httpx_request = always out, model_validate = accept_all\<rparr>"

definition local_client :: MAIAClient where
  "local_client = MAIAClient_init DEFAULT_BASE_URL DEFAULT_TIMEOUT None"

definition local_async_client :: AsyncMAIAClient where
  "local_async_client = AsyncMAIAClient_init DEFAULT_BASE_URL DEFAULT_TIMEOUT None"

text \<open>
  The query parameter \<open>k\<close> of a call: \<open>None\<close> when the call has no parameters or none
  of that name.
\<close>

definition query_param :: "(string \<times> pyval) list option \<Rightarrow> string \<Rightarrow> pyval option" where
  "query_param prms k = (case prms of None \<Rightarrow> None | Some d \<Rightarrow> map_of d k)"

text \<open>
  Reading a serialised body: the entry \<open>k\<close> of a JSON object (\<open>None\<close> when there is no
  such key) and the list of its values.
\<close>

definition body_field :: "pyval \<Rightarrow> string \<Rightarrow> pyval option" where
  "body_field b k = (case b of PDict d \<Rightarrow> map_of d k | _ \<Rightarrow> None)"

definition body_values :: "pyval \<Rightarrow> pyval list" where
  "body_values b = (case b of PDict d \<Rightarrow> map snd d | _ \<Rightarrow> [])"

text \<open>The input of the test-suite's \<open>test_create_memory\<close>.\<close>

definition test_memory_input :: CreateMemoryInput where
  "test_memory_input =
     \<lparr>CreateMemoryInput.namespace = ''test'', CreateMemoryInput.content = ''Test memory'',
      type = Some SEMANTIC, CreateMemoryInput.metadata = None,
      CreateMemoryInput.tags = None, CreateMemoryInput.confidence = None, source = None\<rparr>"





section \<open>Classification helpers of APIError\<close>

text \<open>
  Claim C3. For every APIError with status code s and code c: \<open>is_not_found\<close> holds iff
  s = 404 or c = "NOT_FOUND"; \<open>is_already_exists\<close> iff s = 409 or c = "ALREADY_EXISTS";
  \<open>is_invalid_input\<close> iff s = 400 or c = "INVALID_INPUT"; \<open>is_server_error\<close> iff s >= 500.
  An error with status 404 and code "NOT_FOUND" is not-found and neither already-exists
  nor invalid-input; an error with status 500 and no code is a server error and not
  not-found.
\<close>

theorem C3_classification:
  "is_not_found \<lparr>APIError.status_code = s, message = m, code = c, details = d\<rparr>
     = (s = 404 \<or> c = PStr ''NOT_FOUND'')
   \<and> is_already_exists \<lparr>APIError.status_code = s, message = m, code = c, details = d\<rparr>
     = (s = 409 \<or> c = PStr ''ALREADY_EXISTS'')
   \<and> is_invalid_input \<lparr>APIError.status_code = s, message = m, code = c, details = d\<rparr>
     = (s = 400 \<or> c = PStr ''INVALID_INPUT'')
   \<and> is_server_error \<lparr>APIError.status_code = s, message = m, code = c, details = d\<rparr>
     = (500 \<le> s)
   \<and> is_not_found \<lparr>APIError.status_code = 404, message = m, code = PStr ''NOT_FOUND'', details = d\<rparr>
   \<and> \<not> is_already_exists
         \<lparr>APIError.status_code = 404, message = m, code = PStr ''NOT_FOUND'', details = d\<rparr>
   \<and> \<not> is_invalid_input
         \<lparr>APIError.status_code = 404, message = m, code = PStr ''NOT_FOUND'', details = d\<rparr>
   \<and> is_server_error \<lparr>APIError.status_code = 500, message = m, code = PNone, details = d\<rparr>
   \<and> \<not> is_not_found \<lparr>APIError.status_code = 500, message = m, code = PNone, details = d\<rparr>"
  by (simp add: is_not_found_def is_already_exists_def is_invalid_input_def
      is_server_error_def)

section \<open>The transport's contract\<close>

lemma str_int_404: "str_int 404 = ''404''"
  by code_simp

lemma str_int_502: "str_int 502 = ''502''"
  by code_simp

text \<open>
  Claim C2, as stated, at a response with status 200 whose body is the plain text
  \<open>OK\<close>: the status is below 400 and the body is not empty, yet \<open>_request\<close> does not
  return a parsed body; it raises the parser's error.
\<close>

theorem C2_counterexample:
  "response.status_code (text_response 200 ''OK'') < 400
   \<and> response.content (text_response 200 ''OK'') \<noteq> []
   \<and> fst (sync_request (mock (Response (text_response 200 ''OK'')))
          local_client [] ''GET'' ''/ready'' None None)
     = Inl JSONDecodeError"
  by (simp add: sync_request_def mock_def always_def text_response_def)

text \<open>
  Claim C2, amended. For every response \<open>r\<close> that the transport call of \<open>_request\<close>
  receives: with status >= 400 and a body that parses to a JSON object, \<open>_request\<close> raises
  an APIError whose message is the object's \<open>error\<close> entry, or \<open>HTTP {status}\<close> when there
  is none, and whose code and details are the entries \<open>code\<close> and \<open>details\<close>, or \<open>None\<close>;
  with status >= 400 and a body that is not valid JSON, it raises an APIError whose
  message is the body's text, or \<open>HTTP {status}\<close> when the text is empty; with status
  < 400 it returns \<open>None\<close> for an empty body and the parsed value for a non-empty body
  that is valid JSON, and raises the parser's error for a non-empty body that is not.
  In every case exactly one call is made on the network.
\<close>

theorem C2_request_contract:
  fixes env :: "'o env"
  assumes net: "httpx_request env (MAIAClient.client self)
             \<lparr>method = meth, path = pth, request.json = body, params = prms\<rparr> = Response r"
  shows "(400 \<le> response.status_code r \<longrightarrow>
            (\<forall>d. response.json r = Some (PDict d) \<longrightarrow>
               fst (sync_request env self calls meth pth body prms) =
                 Inl (APIErrorExn
                   \<lparr>APIError.status_code = response.status_code r,
                    message = (case map_of d ''error'' of
                                 Some v \<Rightarrow> v
                               | None \<Rightarrow> PStr (''HTTP '' @ str_int (response.status_code r))),
                    code = (case map_of d ''code'' of Some v \<Rightarrow> v | None \<Rightarrow> PNone),
                    details = (case map_of d ''details'' of Some v \<Rightarrow> v | None \<Rightarrow> PNone)\<rparr>))
          \<and> (response.json r = None \<longrightarrow>
               fst (sync_request env self calls meth pth body prms) =
                 Inl (APIErrorExn
                   \<lparr>APIError.status_code = response.status_code r,
                    message = PStr (if text' r = [] 
                                    then ''HTTP '' @ str_int (response.status_code r)
                                    else text' r),
                    code = PNone, details = PNone\<rparr>)))
       \<and> (response.status_code r < 400 \<longrightarrow>
            (response.content r = [] \<longrightarrow>
               fst (sync_request env self calls meth pth body prms) = Inr PNone)
          \<and> (\<forall>j. response.content r \<noteq> [] \<and> response.json r = Some j \<longrightarrow>
               fst (sync_request env self calls meth pth body prms) = Inr j)
          \<and> (response.content r \<noteq> [] \<and> response.json r = None \<longrightarrow>
               fst (sync_request env self calls meth pth body prms) = Inl JSONDecodeError))
       \<and> snd (sync_request env self calls meth pth body prms) =
           calls @ [(MAIAClient.client self,
                     \<lparr>method = meth, path = pth, request.json = body, params = prms\<rparr>)]"
  using net
  by (auto simp: sync_request_def Let_def dict_get_def split: option.splits pyval.splits)

theorem C2_request_contract_witness:
  "fst (sync_request
          (mock (Response not_found_response))
          local_client [] ''GET'' ''/v1/memories/nonexistent'' None None)
     = Inl (APIErrorExn \<lparr>APIError.status_code = 404, message = PStr ''memory not found'',
                          code = PStr ''NOT_FOUND'', details = PNone\<rparr>)
   \<and> fst (sync_request (mock (Response (json_response 404 ''{}'' (PDict []))))
          local_client [] ''GET'' ''/v1/stats'' None None)
     = Inl (APIErrorExn \<lparr>APIError.status_code = 404, message = PStr ''HTTP 404'',
                          code = PNone, details = PNone\<rparr>)
   \<and> fst (sync_request (mock (Response (text_response 502 ''Bad Gateway'')))
          local_client [] ''GET'' ''/v1/stats'' None None)
     = Inl (APIErrorExn \<lparr>APIError.status_code = 502, message = PStr ''Bad Gateway'',
                          code = PNone, details = PNone\<rparr>)
   \<and> fst (sync_request (mock (Response (text_response 502 [])))
          local_client [] ''GET'' ''/v1/stats'' None None)
     = Inl (APIErrorExn \<lparr>APIError.status_code = 502, message = PStr ''HTTP 502'',
                          code = PNone, details = PNone\<rparr>)
   \<and> fst (sync_request (mock (Response deleted_response))
          local_client [] ''DELETE'' ''/v1/memories/mem-123'' None None)
     = Inr (PDict [(''deleted'', PBool True)])
   \<and> fst (sync_request (mock (Response (text_response 204 [])))
          local_client [] ''GET'' ''/ready'' None None)
     = Inr PNone
   \<and> snd (sync_request (mock (Response (text_response 204 [])))
          local_client [] ''GET'' ''/ready'' None None)
     = [(MAIAClient.client local_client,
         \<lparr>method = ''GET'', path = ''/ready'', request.json = None, params = None\<rparr>)]"
proof -
  have net: "httpx_request (mock (Response r)) c q = Response r" for r c q
    by (simp add: mock_def always_def)
  note a = C2_request_contract [where r = "not_found_response" and env = "mock (Response (not_found_response))"
             and self = local_client and meth = "''GET''" and pth = "''/v1/memories/nonexistent''"
             and body = None and prms = None and calls = "[]", OF net]
  note b = C2_request_contract [where r = "json_response 404 ''{}'' (PDict [])" and env = "mock (Response (json_response 404 ''{}'' (PDict [])))"
             and self = local_client and meth = "''GET''" and pth = "''/v1/stats''"
             and body = None and prms = None and calls = "[]", OF net]
  note c = C2_request_contract [where r = "text_response 502 ''Bad Gateway''" and env = "mock (Response (text_response 502 ''Bad Gateway''))"
             and self = local_client and meth = "''GET''" and pth = "''/v1/stats''"
             and body = None and prms = None and calls = "[]", OF net]
  note d = C2_request_contract [where r = "text_response 502 []" and env = "mock (Response (text_response 502 []))"
             and self = local_client and meth = "''GET''" and pth = "''/v1/stats''"
             and body = None and prms = None and calls = "[]", OF net]
  note e = C2_request_contract [where r = "deleted_response" and env = "mock (Response (deleted_response))"
             and self = local_client and meth = "''DELETE''" and pth = "''/v1/memories/mem-123''"
             and body = None and prms = None and calls = "[]", OF net]
  note f = C2_request_contract [where r = "text_response 204 []" and env = "mock (Response (text_response 204 []))"
             and self = local_client and meth = "''GET''" and pth = "''/ready''"
             and body = None and prms = None and calls = "[]", OF net]
  show ?thesis
    using a b c d e f
    by (simp add: json_response_def text_response_def not_found_response_def deleted_response_def str_int_404 str_int_502)
qed

section \<open>Where the calls go\<close>

lemma snd_sync_request:
  "snd (sync_request env self calls meth pth body prms) =
     calls @ [(MAIAClient.client self,
               \<lparr>method = meth, path = pth, request.json = body, params = prms\<rparr>)]"
  by (simp add: sync_request_def Let_def split: outcome.splits option.splits pyval.splits)

lemma snd_validate_result: "snd (validate_result env m r) = snd r"
  by (simp add: validate_result_def split: sum.splits option.splits)


section \<open>Validation before sending\<close>

text \<open>
  Claim C1, as stated, at \<open>create_memory\<close> with both the namespace and the content
  empty: the content is empty, and the error raised names \<open>namespace\<close>, not \<open>content\<close>.
\<close>

theorem C1_counterexample:
  "CreateMemoryInput.content
      \<lparr>CreateMemoryInput.namespace = [], CreateMemoryInput.content = [], type = None,
       CreateMemoryInput.metadata = None, CreateMemoryInput.tags = None,
       CreateMemoryInput.confidence = None, source = None\<rparr> = []
   \<and> fst (create_memory (mock (Response deleted_response)) local_client []
      \<lparr>CreateMemoryInput.namespace = [], CreateMemoryInput.content = [], type = None,
       CreateMemoryInput.metadata = None, CreateMemoryInput.tags = None,
       CreateMemoryInput.confidence = None, source = None\<rparr>)
     = Inl (ValidationError ''namespace'' ''namespace is required'')
   \<and> ''namespace'' \<noteq> ''content''"
  by (simp add: create_memory_def)

text \<open>
  Claim C1, amended. Each operation with a required string field, called with that
  field empty, raises a ValidationError and leaves the log of calls as it was: no
  request is made. The error names the field, for \<open>get_memory\<close>, \<open>update_memory\<close>,
  \<open>delete_memory\<close>, \<open>update_namespace\<close>, \<open>delete_namespace\<close> (\<open>id\<close>), \<open>create_namespace\<close>
  (\<open>name\<close>), \<open>get_namespace\<close> (\<open>id_or_name\<close>), \<open>list_namespace_memories\<close> (\<open>namespace\<close>) and
  \<open>get_context\<close> (\<open>query\<close>). \<open>create_memory\<close> checks the namespace first and the content
  second and names the first that is empty: \<open>namespace\<close> when the namespace is empty,
  \<open>content\<close> when the content is empty and the namespace is not.
\<close>

theorem C1_validation_before_send:
  fixes env :: "'o env"
  shows
  "(CreateMemoryInput.namespace cm = [] \<longrightarrow>
      create_memory env self calls cm
        = (Inl (ValidationError ''namespace'' ''namespace is required''), calls))
   \<and> (CreateMemoryInput.namespace cm \<noteq> [] \<and> CreateMemoryInput.content cm = [] \<longrightarrow>
      create_memory env self calls cm
        = (Inl (ValidationError ''content'' ''content is required''), calls))
   \<and> get_memory env self calls [] = (Inl (ValidationError ''id'' ''id is required''), calls)
   \<and> update_memory env self calls [] um
        = (Inl (ValidationError ''id'' ''id is required''), calls)
   \<and> delete_memory env self calls [] = (Inl (ValidationError ''id'' ''id is required''), calls)
   \<and> (name cn = [] \<longrightarrow>
      create_namespace env self calls cn
        = (Inl (ValidationError ''name'' ''name is required''), calls))
   \<and> get_namespace env self calls []
        = (Inl (ValidationError ''id_or_name'' ''id or name is required''), calls)
   \<and> update_namespace env self calls [] un
        = (Inl (ValidationError ''id'' ''id is required''), calls)
   \<and> delete_namespace env self calls []
        = (Inl (ValidationError ''id'' ''id is required''), calls)
   \<and> list_namespace_memories env self calls [] opts
        = (Inl (ValidationError ''namespace'' ''namespace is required''), calls)
   \<and> (GetContextInput.query gc = [] \<longrightarrow>
      get_context env self calls gc
        = (Inl (ValidationError ''query'' ''query is required''), calls))"
  by (simp add: create_memory_def get_memory_def update_memory_def delete_memory_def
      create_namespace_def get_namespace_def update_namespace_def delete_namespace_def
      list_namespace_memories_def get_context_def)

theorem C1_validation_before_send_witness:
  "create_memory (mock (Response deleted_response)) local_client []
      \<lparr>CreateMemoryInput.namespace = [], CreateMemoryInput.content = ''Test'', type = None,
       CreateMemoryInput.metadata = None, CreateMemoryInput.tags = None,
       CreateMemoryInput.confidence = None, source = None\<rparr>
     = (Inl (ValidationError ''namespace'' ''namespace is required''), [])
   \<and> create_memory (mock (Response deleted_response)) local_client []
      \<lparr>CreateMemoryInput.namespace = ''test'', CreateMemoryInput.content = [], type = None,
       CreateMemoryInput.metadata = None, CreateMemoryInput.tags = None,
       CreateMemoryInput.confidence = None, source = None\<rparr>
     = (Inl (ValidationError ''content'' ''content is required''), [])
   \<and> create_namespace (mock (Response deleted_response)) local_client []
      \<lparr>name = [], parent = None, template = None, CreateNamespaceInput.config = None\<rparr>
     = (Inl (ValidationError ''name'' ''name is required''), [])
   \<and> get_context (mock (Response deleted_response)) local_client []
      \<lparr>GetContextInput.query = [], GetContextInput.namespace = None,
       GetContextInput.token_budget = None, system_prompt = None,
       include_scores = None, min_score = None\<rparr>
     = (Inl (ValidationError ''query'' ''query is required''), [])
   \<and> get_memory (mock (Response deleted_response)) local_client [] []
     = (Inl (ValidationError ''id'' ''id is required''), [])"
  using
    C1_validation_before_send [where env = "mock (Response deleted_response)"
      and self = local_client and calls = "[]"
      and cm = "\<lparr>CreateMemoryInput.namespace = [], CreateMemoryInput.content = ''Test'',
               type = None, CreateMemoryInput.metadata = None, CreateMemoryInput.tags = None,
               CreateMemoryInput.confidence = None, source = None\<rparr>"
      and cn = "\<lparr>name = [], parent = None, template = None,
               CreateNamespaceInput.config = None\<rparr>"
      and gc = "\<lparr>GetContextInput.query = [], GetContextInput.namespace = None,
               GetContextInput.token_budget = None, system_prompt = None,
               include_scores = None, min_score = None\<rparr>"]
    C1_validation_before_send [where env = "mock (Response deleted_response)"
      and self = local_client and calls = "[]"
      and cm = "\<lparr>CreateMemoryInput.namespace = ''test'', CreateMemoryInput.content = [],
               type = None, CreateMemoryInput.metadata = None, CreateMemoryInput.tags = None,
               CreateMemoryInput.confidence = None, source = None\<rparr>"]
  by simp

section \<open>Pagination parameters\<close>

lemma quote_default: "quote ''default'' [] = ''default''"
  by code_simp

text \<open>
  Claim C6. \<open>list_namespaces\<close>, and \<open>list_namespace_memories\<close> for a non-empty namespace,
  make one GET call whose query parameters are as follows. Without options there are
  no parameters at all. With options, \<open>limit\<close> is a parameter exactly when the limit is
  present and not zero, and then it is that number; the same for \<open>offset\<close>; and there is
  no parameter of any other name. With only \<open>limit=10\<close> the parameters are just
  \<open>limit=10\<close>.
\<close>

theorem C6_pagination_params:
  fixes env :: "'o env"
  shows
  "(\<exists>prms.
      snd (list_namespaces env self calls options) =
        calls @ [(MAIAClient.client self,
                  \<lparr>method = ''GET'', path = ''/v1/namespaces'', request.json = None,
                   params = prms\<rparr>)]
      \<and> (options = None \<longrightarrow> prms = None)
      \<and> (\<forall>opts. options = Some opts \<longrightarrow>
            query_param prms ''limit'' =
              (case ListOptions.limit opts of
                 None \<Rightarrow> None | Some n \<Rightarrow> if n = 0 then None else Some (PInt n))
          \<and> query_param prms ''offset'' =
              (case ListOptions.offset opts of
                 None \<Rightarrow> None | Some n \<Rightarrow> if n = 0 then None else Some (PInt n)))
      \<and> (\<forall>k. k \<noteq> ''limit'' \<and> k \<noteq> ''offset'' \<longrightarrow> query_param prms k = None)
      \<and> (options = Some \<lparr>ListOptions.limit = Some 10, ListOptions.offset = None\<rparr> \<longrightarrow>
            prms = Some [(''limit'', PInt 10)]))
   \<and> (ns \<noteq> [] \<longrightarrow>
        (\<exists>prms.
          snd (list_namespace_memories env self calls ns options) =
            calls @ [(MAIAClient.client self,
                      \<lparr>method = ''GET'', path = ''/v1/namespaces/'' @ quote ns [] @ ''/memories'',
                       request.json = None, params = prms\<rparr>)]
          \<and> (options = None \<longrightarrow> prms = None)
          \<and> (\<forall>opts. options = Some opts \<longrightarrow>
                query_param prms ''limit'' =
                  (case ListOptions.limit opts of
                     None \<Rightarrow> None | Some n \<Rightarrow> if n = 0 then None else Some (PInt n))
              \<and> query_param prms ''offset'' =
                  (case ListOptions.offset opts of
                     None \<Rightarrow> None | Some n \<Rightarrow> if n = 0 then None else Some (PInt n)))
          \<and> (\<forall>k. k \<noteq> ''limit'' \<and> k \<noteq> ''offset'' \<longrightarrow> query_param prms k = None)
          \<and> (options = Some \<lparr>ListOptions.limit = Some 10, ListOptions.offset = None\<rparr> \<longrightarrow>
                prms = Some [(''limit'', PInt 10)])))"
proof (intro conjI impI)
  show "\<exists>prms.
      snd (list_namespaces env self calls options) =
        calls @ [(MAIAClient.client self,
                  \<lparr>method = ''GET'', path = ''/v1/namespaces'', request.json = None,
                   params = prms\<rparr>)]
      \<and> (options = None \<longrightarrow> prms = None)
      \<and> (\<forall>opts. options = Some opts \<longrightarrow>
            query_param prms ''limit'' =
              (case ListOptions.limit opts of
                 None \<Rightarrow> None | Some n \<Rightarrow> if n = 0 then None else Some (PInt n))
          \<and> query_param prms ''offset'' =
              (case ListOptions.offset opts of
                 None \<Rightarrow> None | Some n \<Rightarrow> if n = 0 then None else Some (PInt n)))
      \<and> (\<forall>k. k \<noteq> ''limit'' \<and> k \<noteq> ''offset'' \<longrightarrow> query_param prms k = None)
      \<and> (options = Some \<lparr>ListOptions.limit = Some 10, ListOptions.offset = None\<rparr> \<longrightarrow>
            prms = Some [(''limit'', PInt 10)])"
    unfolding list_namespaces_def Let_def snd_validate_result snd_sync_request
    by (intro exI conjI, rule refl) (simp_all add: query_param_def split: option.splits)
next
  assume ns: "ns \<noteq> []"
  show "\<exists>prms.
          snd (list_namespace_memories env self calls ns options) =
            calls @ [(MAIAClient.client self,
                      \<lparr>method = ''GET'', path = ''/v1/namespaces/'' @ quote ns [] @ ''/memories'',
                       request.json = None, params = prms\<rparr>)]
          \<and> (options = None \<longrightarrow> prms = None)
          \<and> (\<forall>opts. options = Some opts \<longrightarrow>
                query_param prms ''limit'' =
                  (case ListOptions.limit opts of
                     None \<Rightarrow> None | Some n \<Rightarrow> if n = 0 then None else Some (PInt n))
              \<and> query_param prms ''offset'' =
                  (case ListOptions.offset opts of
                     None \<Rightarrow> None | Some n \<Rightarrow> if n = 0 then None else Some (PInt n)))
          \<and> (\<forall>k. k \<noteq> ''limit'' \<and> k \<noteq> ''offset'' \<longrightarrow> query_param prms k = None)
          \<and> (options = Some \<lparr>ListOptions.limit = Some 10, ListOptions.offset = None\<rparr> \<longrightarrow>
                prms = Some [(''limit'', PInt 10)])"
    unfolding list_namespace_memories_def Let_def
    by (simp only: ns if_False snd_validate_result snd_sync_request, intro exI conjI, rule refl)
       (simp_all add: query_param_def split: option.splits)
qed

theorem C6_pagination_params_witness:
  "snd (list_namespaces (mock (Response deleted_response)) local_client [] None)
     = [(MAIAClient.client local_client,
         \<lparr>method = ''GET'', path = ''/v1/namespaces'', request.json = None, params = None\<rparr>)]
   \<and> snd (list_namespaces (mock (Response deleted_response)) local_client []
          (Some \<lparr>ListOptions.limit = Some 10, ListOptions.offset = None\<rparr>))
     = [(MAIAClient.client local_client,
         \<lparr>method = ''GET'', path = ''/v1/namespaces'', request.json = None,
          params = Some [(''limit'', PInt 10)]\<rparr>)]
   \<and> snd (list_namespace_memories (mock (Response deleted_response)) local_client []
          ''default'' (Some \<lparr>ListOptions.limit = Some 10, ListOptions.offset = None\<rparr>))
     = [(MAIAClient.client local_client,
         \<lparr>method = ''GET'', path = ''/v1/namespaces/default/memories'', request.json = None,
          params = Some [(''limit'', PInt 10)]\<rparr>)]"
  using
    C6_pagination_params [where env = "mock (Response deleted_response)"
      and self = local_client and calls = "[]" and ns = "''default''" and options = None]
    C6_pagination_params [where env = "mock (Response deleted_response)"
      and self = local_client and calls = "[]" and ns = "''default''"
      and options = "Some \<lparr>ListOptions.limit = Some 10, ListOptions.offset = None\<rparr>"]
  by (auto simp: quote_default)

section \<open>The base URL\<close>

lemma rstrip_decompose:
  "\<exists>n. s = rstrip s [c] @ replicate n c"
proof -
  have "\<exists>n. xs = replicate n c @ dropWhile (\<lambda>x. x \<in> set [c]) xs" for xs :: string
  proof (induction xs)
    case Nil
    show ?case by simp
  next
    case (Cons a xs)
    show ?case
    proof (cases "a = c")
      case True
      from Cons.IH obtain n where "xs = replicate n c @ dropWhile (\<lambda>x. x \<in> set [c]) xs" ..
      then have "a # xs = replicate (Suc n) c @ dropWhile (\<lambda>x. x \<in> set [c]) (a # xs)"
        using True by simp
      then show ?thesis ..
    next
      case False
      then have "a # xs = replicate 0 c @ dropWhile (\<lambda>x. x \<in> set [c]) (a # xs)"
        by simp
      then show ?thesis ..
    qed
  qed
  then obtain n where "rev s = replicate n c @ dropWhile (\<lambda>x. x \<in> set [c]) (rev s)" ..
  then have "rev (rev s) = rev (replicate n c @ dropWhile (\<lambda>x. x \<in> set [c]) (rev s))"
    by simp
  then have "s = rstrip s [c] @ replicate n c"
    by (simp add: rstrip_def)
  then show ?thesis ..
qed

lemma rstrip_last: "rstrip s [c] = [] \<or> last (rstrip s [c]) \<noteq> c"
proof (cases "dropWhile (\<lambda>x. x \<in> set [c]) (rev s)")
  case Nil
  then show ?thesis by (simp add: rstrip_def)
next
  case (Cons a xs)
  then have "a \<noteq> c"
    using hd_dropWhile [of "\<lambda>x. x \<in> set [c]" "rev s"] by auto
  then show ?thesis
    using Cons by (simp add: rstrip_def)
qed

lemma rstrip_localhost:
  "rstrip ''http://localhost:8080/'' ''/'' = ''http://localhost:8080''
   \<and> rstrip ''http://localhost:8080'' ''/'' = ''http://localhost:8080''"
  by (simp add: rstrip_def)

text \<open>
  Claim C10. Both constructors store the given URL without its trailing \<open>/\<close>
  characters: the given URL is the stored one followed by some number of \<open>/\<close>, and the
  stored one does not end in \<open>/\<close>. The HTTP client that makes every later request is
  constructed with the stored URL. Constructed with \<open>http://localhost:8080/\<close> and with
  \<open>http://localhost:8080\<close> (and the same timeout and headers), the clients are equal.
\<close>

theorem C10_base_url_stripped:
  "(\<exists>n. url = MAIAClient.base_url (MAIAClient_init url tmo hdrs) @ replicate n CHR ''/'')
   \<and> (MAIAClient.base_url (MAIAClient_init url tmo hdrs) = []
        \<or> last (MAIAClient.base_url (MAIAClient_init url tmo hdrs)) \<noteq> CHR ''/'')
   \<and> httpx_client.base_url (MAIAClient.client (MAIAClient_init url tmo hdrs))
        = MAIAClient.base_url (MAIAClient_init url tmo hdrs)
   \<and> (\<exists>n. url = AsyncMAIAClient.base_url (AsyncMAIAClient_init url tmo hdrs)
                  @ replicate n CHR ''/'')
   \<and> (AsyncMAIAClient.base_url (AsyncMAIAClient_init url tmo hdrs) = []
        \<or> last (AsyncMAIAClient.base_url (AsyncMAIAClient_init url tmo hdrs)) \<noteq> CHR ''/'')
   \<and> httpx_client.base_url (AsyncMAIAClient.client (AsyncMAIAClient_init url tmo hdrs))
        = AsyncMAIAClient.base_url (AsyncMAIAClient_init url tmo hdrs)
   \<and> MAIAClient_init ''http://localhost:8080/'' tmo hdrs
        = MAIAClient_init ''http://localhost:8080'' tmo hdrs
   \<and> AsyncMAIAClient_init ''http://localhost:8080/'' tmo hdrs
        = AsyncMAIAClient_init ''http://localhost:8080'' tmo hdrs
   \<and> MAIAClient.base_url (MAIAClient_init ''http://localhost:8080/'' tmo hdrs)
        = ''http://localhost:8080''"
  using rstrip_decompose [of url "CHR ''/''"] rstrip_last [of url "CHR ''/''"]
    rstrip_localhost
  by (simp add: MAIAClient_init_def AsyncMAIAClient_init_def Let_def)

section \<open>Serialised request bodies\<close>

lemma case_option_map: "(case x of None \<Rightarrow> None | Some v \<Rightarrow> Some (f v)) = map_option f x"
  by (cases x) simp_all

lemma body_field_Nil: "body_field (PDict []) k = None"
  by (simp add: body_field_def)

lemma body_field_Cons:
  "body_field (PDict ((k', v) # d)) k = (if k' = k then Some v else body_field (PDict d) k)"
  by (simp add: body_field_def)

lemma body_field_dump_field:
  "body_field (PDict (dump_field k' f x @ d)) k =
     (if k' = k \<and> x \<noteq> None then map_option f x else body_field (PDict d) k)"
  by (cases x) (simp_all add: body_field_def dump_field_def)

lemma body_field_dump_field_last:
  "body_field (PDict (dump_field k' f x)) k = (if k' = k then map_option f x else None)"
  by (cases x) (simp_all add: body_field_def dump_field_def)

lemmas body_field_simps =
  body_field_Nil body_field_Cons body_field_dump_field body_field_dump_field_last
  case_option_map

lemma None_in_dump_field:
  "PNone \<in> snd ` set (dump_field k f x) \<longleftrightarrow> (\<exists>v. x = Some v \<and> f v = PNone)"
  by (cases x) (auto simp: dump_field_def)

lemma body_values_PDict: "set (body_values (PDict d)) = snd ` set d"
  by (simp add: body_values_def)

lemmas body_values_simps =
  body_values_PDict None_in_dump_field image_Un dump_type_list_def dump_float_dict_def
  dump_str_list_def dump_enum_MemoryType_def dump_enum_MemorySource_def

lemma NamespaceConfig_dump_fields:
  "body_field (NamespaceConfig_model_dump c) ''token_budget''
     = map_option PInt (NamespaceConfig.token_budget c)
   \<and> body_field (NamespaceConfig_model_dump c) ''max_memories''
     = map_option PInt (max_memories c)
   \<and> body_field (NamespaceConfig_model_dump c) ''retention_days''
     = map_option PInt (retention_days c)
   \<and> body_field (NamespaceConfig_model_dump c) ''allowed_types''
     = map_option dump_type_list (allowed_types c)
   \<and> body_field (NamespaceConfig_model_dump c) ''custom_scoring''
     = map_option dump_float_dict (custom_scoring c)
   \<and> PNone \<notin> set (body_values (NamespaceConfig_model_dump c))"
  by (simp add: NamespaceConfig_model_dump_def body_field_simps body_values_simps split: if_splits)

lemma CreateMemoryInput_dump_fields:
  "body_field (CreateMemoryInput_model_dump i) ''type''
     = map_option dump_enum_MemoryType (type i)
   \<and> body_field (CreateMemoryInput_model_dump i) ''metadata''
     = map_option PDict (CreateMemoryInput.metadata i)
   \<and> body_field (CreateMemoryInput_model_dump i) ''tags''
     = map_option dump_str_list (CreateMemoryInput.tags i)
   \<and> body_field (CreateMemoryInput_model_dump i) ''confidence''
     = map_option PFloat (CreateMemoryInput.confidence i)
   \<and> body_field (CreateMemoryInput_model_dump i) ''source''
     = map_option dump_enum_MemorySource (source i)
   \<and> PNone \<notin> set (body_values (CreateMemoryInput_model_dump i))"
  by (simp add: CreateMemoryInput_model_dump_def body_field_simps body_values_simps split: if_splits)

lemma UpdateMemoryInput_dump_fields:
  "body_field (UpdateMemoryInput_model_dump i) ''content''
     = map_option PStr (UpdateMemoryInput.content i)
   \<and> body_field (UpdateMemoryInput_model_dump i) ''metadata''
     = map_option PDict (UpdateMemoryInput.metadata i)
   \<and> body_field (UpdateMemoryInput_model_dump i) ''tags''
     = map_option dump_str_list (UpdateMemoryInput.tags i)
   \<and> body_field (UpdateMemoryInput_model_dump i) ''confidence''
     = map_option PFloat (UpdateMemoryInput.confidence i)
   \<and> PNone \<notin> set (body_values (UpdateMemoryInput_model_dump i))"
  by (simp add: UpdateMemoryInput_model_dump_def body_field_simps body_values_simps split: if_splits)

lemma SearchMemoriesInput_dump_fields:
  "body_field (SearchMemoriesInput_model_dump i) ''query''
     = map_option PStr (SearchMemoriesInput.query i)
   \<and> body_field (SearchMemoriesInput_model_dump i) ''namespace''
     = map_option PStr (SearchMemoriesInput.namespace i)
   \<and> body_field (SearchMemoriesInput_model_dump i) ''types''
     = map_option dump_type_list (types i)
   \<and> body_field (SearchMemoriesInput_model_dump i) ''tags''
     = map_option dump_str_list (SearchMemoriesInput.tags i)
   \<and> body_field (SearchMemoriesInput_model_dump i) ''limit''
     = map_option PInt (SearchMemoriesInput.limit i)
   \<and> body_field (SearchMemoriesInput_model_dump i) ''offset''
     = map_option PInt (SearchMemoriesInput.offset i)
   \<and> PNone \<notin> set (body_values (SearchMemoriesInput_model_dump i))"
  by (simp add: SearchMemoriesInput_model_dump_def body_field_simps body_values_simps split: if_splits)

lemma CreateNamespaceInput_dump_fields:
  "body_field (CreateNamespaceInput_model_dump i) ''parent''
     = map_option PStr (parent i)
   \<and> body_field (CreateNamespaceInput_model_dump i) ''template''
     = map_option PStr (template i)
   \<and> body_field (CreateNamespaceInput_model_dump i) ''config''
     = map_option NamespaceConfig_model_dump (CreateNamespaceInput.config i)
   \<and> PNone \<notin> set (body_values (CreateNamespaceInput_model_dump i))"
  by (simp add: CreateNamespaceInput_model_dump_def body_field_simps body_values_simps 
      NamespaceConfig_model_dump_def split: if_splits)

lemma UpdateNamespaceInput_dump_fields:
  "body_field (UpdateNamespaceInput_model_dump i) ''config''
     = Some (NamespaceConfig_model_dump (UpdateNamespaceInput.config i))
   \<and> PNone \<notin> set (body_values (UpdateNamespaceInput_model_dump i))"
  by (simp add: UpdateNamespaceInput_model_dump_def body_field_simps body_values_simps 
      NamespaceConfig_model_dump_def split: if_splits)

lemma GetContextInput_dump_fields:
  "body_field (GetContextInput_model_dump i) ''namespace''
     = map_option PStr (GetContextInput.namespace i)
   \<and> body_field (GetContextInput_model_dump i) ''token_budget''
     = map_option PInt (GetContextInput.token_budget i)
   \<and> body_field (GetContextInput_model_dump i) ''system_prompt''
     = map_option PStr (system_prompt i)
   \<and> body_field (GetContextInput_model_dump i) ''include_scores''
     = map_option PBool (include_scores i)
   \<and> body_field (GetContextInput_model_dump i) ''min_score''
     = map_option PFloat (min_score i)
   \<and> PNone \<notin> set (body_values (GetContextInput_model_dump i))"
  by (simp add: GetContextInput_model_dump_def body_field_simps body_values_simps split: if_splits)

lemma SearchMemoriesInput_default_dump:
  "SearchMemoriesInput_model_dump SearchMemoriesInput_default = PDict []"
  by (simp add: SearchMemoriesInput_model_dump_def SearchMemoriesInput_default_def
      dump_field_def)

text \<open>
  Claim C9. Each operation that carries a body sends the \<open>model_dump(exclude_none=True)\<close>
  of its input. In that body an optional field has an entry exactly when it is set, and
  the entry is the field's value; this holds for the fields of a nested namespace
  configuration as well, and no entry of a body or of a nested configuration is
  \<open>None\<close>. \<open>search_memories\<close> without an input sends the dump of the all-defaults filter,
  which is the empty object.
\<close>

theorem C9_optional_fields_omitted:
  fixes env :: "'o env"
  shows
  "(CreateMemoryInput.namespace cm \<noteq> [] \<and> CreateMemoryInput.content cm \<noteq> [] \<longrightarrow>
      snd (create_memory env self calls cm) =
        calls @ [(MAIAClient.client self,
                \<lparr>method = ''POST'', path = ''/v1/memories'',
                 request.json = Some (CreateMemoryInput_model_dump cm), params = None\<rparr>)])
   \<and> (ident \<noteq> [] \<longrightarrow>
      snd (update_memory env self calls ident um) =
        calls @ [(MAIAClient.client self,
                \<lparr>method = ''PUT'', path = ''/v1/memories/'' @ quote ident [],
                 request.json = Some (UpdateMemoryInput_model_dump um), params = None\<rparr>)])
   \<and> snd (search_memories env self calls (Some sm)) =
        calls @ [(MAIAClient.client self,
                \<lparr>method = ''POST'', path = ''/v1/memories/search'',
                 request.json = Some (SearchMemoriesInput_model_dump sm), params = None\<rparr>)]
   \<and> snd (search_memories env self calls None) =
        calls @ [(MAIAClient.client self,
                \<lparr>method = ''POST'', path = ''/v1/memories/search'',
                 request.json = Some (SearchMemoriesInput_model_dump SearchMemoriesInput_default), params = None\<rparr>)]
   \<and> SearchMemoriesInput_model_dump SearchMemoriesInput_default = PDict []
   \<and> (name cn \<noteq> [] \<longrightarrow>
      snd (create_namespace env self calls cn) =
        calls @ [(MAIAClient.client self,
                \<lparr>method = ''POST'', path = ''/v1/namespaces'',
                 request.json = Some (CreateNamespaceInput_model_dump cn), params = None\<rparr>)])
   \<and> (ident \<noteq> [] \<longrightarrow>
      snd (update_namespace env self calls ident un) =
        calls @ [(MAIAClient.client self,
                \<lparr>method = ''PUT'', path = ''/v1/namespaces/'' @ quote ident [],
                 request.json = Some (UpdateNamespaceInput_model_dump un), params = None\<rparr>)])
   \<and> (GetContextInput.query gc \<noteq> [] \<longrightarrow>
      snd (get_context env self calls gc) =
        calls @ [(MAIAClient.client self,
                \<lparr>method = ''POST'', path = ''/v1/context'',
                 request.json = Some (GetContextInput_model_dump gc), params = None\<rparr>)])
   \<and> body_field (CreateMemoryInput_model_dump cm) ''type''
     = map_option dump_enum_MemoryType (type cm)
   \<and> body_field (CreateMemoryInput_model_dump cm) ''metadata''
     = map_option PDict (CreateMemoryInput.metadata cm)
   \<and> body_field (CreateMemoryInput_model_dump cm) ''tags''
     = map_option dump_str_list (CreateMemoryInput.tags cm)
   \<and> body_field (CreateMemoryInput_model_dump cm) ''confidence''
     = map_option PFloat (CreateMemoryInput.confidence cm)
   \<and> body_field (CreateMemoryInput_model_dump cm) ''source''
     = map_option dump_enum_MemorySource (source cm)
   \<and> PNone \<notin> set (body_values (CreateMemoryInput_model_dump cm))
   \<and> body_field (UpdateMemoryInput_model_dump um) ''content''
     = map_option PStr (UpdateMemoryInput.content um)
   \<and> body_field (UpdateMemoryInput_model_dump um) ''metadata''
     = map_option PDict (UpdateMemoryInput.metadata um)
   \<and> body_field (UpdateMemoryInput_model_dump um) ''tags''
     = map_option dump_str_list (UpdateMemoryInput.tags um)
   \<and> body_field (UpdateMemoryInput_model_dump um) ''confidence''
     = map_option PFloat (UpdateMemoryInput.confidence um)
   \<and> PNone \<notin> set (body_values (UpdateMemoryInput_model_dump um))
   \<and> body_field (SearchMemoriesInput_model_dump sm) ''query''
     = map_option PStr (SearchMemoriesInput.query sm)
   \<and> body_field (SearchMemoriesInput_model_dump sm) ''namespace''
     = map_option PStr (SearchMemoriesInput.namespace sm)
   \<and> body_field (SearchMemoriesInput_model_dump sm) ''types''
     = map_option dump_type_list (types sm)
   \<and> body_field (SearchMemoriesInput_model_dump sm) ''tags''
     = map_option dump_str_list (SearchMemoriesInput.tags sm)
   \<and> body_field (SearchMemoriesInput_model_dump sm) ''limit''
     = map_option PInt (SearchMemoriesInput.limit sm)
   \<and> body_field (SearchMemoriesInput_model_dump sm) ''offset''
     = map_option PInt (SearchMemoriesInput.offset sm)
   \<and> PNone \<notin> set (body_values (SearchMemoriesInput_model_dump sm))
   \<and> body_field (CreateNamespaceInput_model_dump cn) ''parent''
     = map_option PStr (parent cn)
   \<and> body_field (CreateNamespaceInput_model_dump cn) ''template''
     = map_option PStr (template cn)
   \<and> body_field (CreateNamespaceInput_model_dump cn) ''config''
     = map_option NamespaceConfig_model_dump (CreateNamespaceInput.config cn)
   \<and> PNone \<notin> set (body_values (CreateNamespaceInput_model_dump cn))
   \<and> body_field (UpdateNamespaceInput_model_dump un) ''config''
     = Some (NamespaceConfig_model_dump (UpdateNamespaceInput.config un))
   \<and> PNone \<notin> set (body_values (UpdateNamespaceInput_model_dump un))
   \<and> body_field (NamespaceConfig_model_dump nc) ''token_budget''
     = map_option PInt (NamespaceConfig.token_budget nc)
   \<and> body_field (NamespaceConfig_model_dump nc) ''max_memories''
     = map_option PInt (max_memories nc)
   \<and> body_field (NamespaceConfig_model_dump nc) ''retention_days''
     = map_option PInt (retention_days nc)
   \<and> body_field (NamespaceConfig_model_dump nc) ''allowed_types''
     = map_option dump_type_list (allowed_types nc)
   \<and> body_field (NamespaceConfig_model_dump nc) ''custom_scoring''
     = map_option dump_float_dict (custom_scoring nc)
   \<and> PNone \<notin> set (body_values (NamespaceConfig_model_dump nc))
   \<and> body_field (GetContextInput_model_dump gc) ''namespace''
     = map_option PStr (GetContextInput.namespace gc)
   \<and> body_field (GetContextInput_model_dump gc) ''token_budget''
     = map_option PInt (GetContextInput.token_budget gc)
   \<and> body_field (GetContextInput_model_dump gc) ''system_prompt''
     = map_option PStr (system_prompt gc)
   \<and> body_field (GetContextInput_model_dump gc) ''include_scores''
     = map_option PBool (include_scores gc)
   \<and> body_field (GetContextInput_model_dump gc) ''min_score''
     = map_option PFloat (min_score gc)
   \<and> PNone \<notin> set (body_values (GetContextInput_model_dump gc))"
  using CreateMemoryInput_dump_fields [of cm] UpdateMemoryInput_dump_fields [of um]
    SearchMemoriesInput_dump_fields [of sm] CreateNamespaceInput_dump_fields [of cn]
    UpdateNamespaceInput_dump_fields [of un] NamespaceConfig_dump_fields [of nc]
    GetContextInput_dump_fields [of gc] SearchMemoriesInput_default_dump
  by (simp add: create_memory_def update_memory_def search_memories_def
      create_namespace_def update_namespace_def get_context_def Let_def
      snd_validate_result snd_sync_request)

lemma test_memory_input_dump:
  "CreateMemoryInput_model_dump test_memory_input =
     PDict [(''namespace'', PStr ''test''), (''content'', PStr ''Test memory''),
            (''type'', PStr ''semantic'')]"
  by (simp add: CreateMemoryInput_model_dump_def test_memory_input_def dump_field_def
      dump_enum_MemoryType_def)

theorem C9_optional_fields_omitted_witness:
  "snd (create_memory (mock (Response deleted_response)) local_client [] test_memory_input) =
     [(MAIAClient.client local_client,
       \<lparr>method = ''POST'', path = ''/v1/memories'',
        request.json = Some (PDict [(''namespace'', PStr ''test''),
                                    (''content'', PStr ''Test memory''),
                                    (''type'', PStr ''semantic'')]),
        params = None\<rparr>)]
   \<and> body_field (CreateMemoryInput_model_dump test_memory_input) ''type''
       = Some (PStr ''semantic'')
   \<and> body_field (CreateMemoryInput_model_dump test_memory_input) ''tags'' = None
   \<and> snd (search_memories (mock (Response deleted_response)) local_client [] None) =
     [(MAIAClient.client local_client,
       \<lparr>method = ''POST'', path = ''/v1/memories/search'',
        request.json = Some (PDict []), params = None\<rparr>)]"
  using C9_optional_fields_omitted [where env = "mock (Response deleted_response)"
      and self = local_client and calls = "[]" and cm = test_memory_input]
  by (simp add: test_memory_input_dump)
     (simp add: test_memory_input_def dump_enum_MemoryType_def dump_str_list_def)

section \<open>The convenience wrappers\<close>

text \<open>
  Claim C8. \<open>remember(namespace, content)\<close> is \<open>create_memory\<close> on the input with that
  namespace and content, type semantic, source user, confidence 1.0 and nothing else
  set (the body sent then has exactly these five entries); \<open>recall\<close> is \<open>get_context\<close> on
  the input that carries its arguments unchanged; \<open>forget(id)\<close> is \<open>delete_memory(id)\<close>.
  The same holds in the asynchronous client.
\<close>

theorem C8_convenience_wrappers:
  fixes env :: "'o env"
  shows
  "remember env self calls ns cont =
     create_memory env self calls
       \<lparr>CreateMemoryInput.namespace = ns, CreateMemoryInput.content = cont,
        type = Some SEMANTIC, CreateMemoryInput.metadata = None,
        CreateMemoryInput.tags = None, CreateMemoryInput.confidence = Some 1,
        source = Some USER\<rparr>
   \<and> CreateMemoryInput_model_dump
       \<lparr>CreateMemoryInput.namespace = ns, CreateMemoryInput.content = cont,
        type = Some SEMANTIC, CreateMemoryInput.metadata = None,
        CreateMemoryInput.tags = None, CreateMemoryInput.confidence = Some 1,
        source = Some USER\<rparr>
     = PDict [(''namespace'', PStr ns), (''content'', PStr cont),
              (''type'', PStr ''semantic''), (''confidence'', PFloat 1),
              (''source'', PStr ''user'')]
   \<and> recall env self calls q qns budget prompt score scores =
     get_context env self calls
       \<lparr>GetContextInput.query = q, GetContextInput.namespace = qns,
        GetContextInput.token_budget = budget, system_prompt = prompt,
        include_scores = scores, min_score = score\<rparr>
   \<and> forget env self calls ident = delete_memory env self calls ident
   \<and> async_remember env aself calls ns cont =
     async_create_memory env aself calls
       \<lparr>CreateMemoryInput.namespace = ns, CreateMemoryInput.content = cont,
        type = Some SEMANTIC, CreateMemoryInput.metadata = None,
        CreateMemoryInput.tags = None, CreateMemoryInput.confidence = Some 1,
        source = Some USER\<rparr>
   \<and> async_recall env aself calls q qns budget prompt score scores =
     async_get_context env aself calls
       \<lparr>GetContextInput.query = q, GetContextInput.namespace = qns,
        GetContextInput.token_budget = budget, system_prompt = prompt,
        include_scores = scores, min_score = score\<rparr>
   \<and> async_forget env aself calls ident = async_delete_memory env aself calls ident"
proof -
  have f: "forget env self calls ident = delete_memory env self calls ident"
    by (cases "delete_memory env self calls ident")
       (simp add: forget_def split: sum.splits)
  have af: "async_forget env aself calls ident = async_delete_memory env aself calls ident"
    by (cases "async_delete_memory env aself calls ident")
       (simp add: async_forget_def split: sum.splits)
  show ?thesis
    by (simp add: remember_def recall_def async_remember_def async_recall_def f af
        CreateMemoryInput_model_dump_def dump_field_def dump_enum_MemoryType_def
        dump_enum_MemorySource_def)
qed

section \<open>The two clients\<close>

lemma async_request_eq:
  "AsyncMAIAClient.client a = MAIAClient.client s \<Longrightarrow>
     async_request env a calls meth pth body prms = sync_request env s calls meth pth body prms"
  by (simp add: async_request_def sync_request_def)

lemma init_same_client:
  "AsyncMAIAClient.client (AsyncMAIAClient_init url tmo hdrs)
     = MAIAClient.client (MAIAClient_init url tmo hdrs)"
  by (simp add: AsyncMAIAClient_init_def MAIAClient_init_def Let_def)

text \<open>
  Claim C5. The two constructors, given the same arguments, store the same base URL and
  construct the HTTP client with the same settings. On clients whose HTTP clients have
  the same settings, and against the same network and the same \<open>model_validate\<close>, every
  method of the asynchronous client gives what the method of the synchronous client
  gives: the same validation error without a call, or the same call (method, path,
  query parameters, body) and, from the same answer, the same value or the same
  exception. (When the asynchronous method suspends is not part of this.)
\<close>

theorem C5_sync_async_agree:
  fixes env :: "'o env"
  assumes same: "AsyncMAIAClient.client a = MAIAClient.client s"
  shows
  "AsyncMAIAClient.base_url (AsyncMAIAClient_init url tmo hdrs)
     = MAIAClient.base_url (MAIAClient_init url tmo hdrs)
   \<and> AsyncMAIAClient.client (AsyncMAIAClient_init url tmo hdrs)
     = MAIAClient.client (MAIAClient_init url tmo hdrs)
   \<and> async_request env a calls meth pth body prms
     = sync_request env s calls meth pth body prms
   \<and> async_health env a calls = health env s calls
   \<and> async_ready env a calls = ready env s calls
   \<and> async_stats env a calls = stats env s calls
   \<and> async_create_memory env a calls cm = create_memory env s calls cm
   \<and> async_get_memory env a calls ident = get_memory env s calls ident
   \<and> async_update_memory env a calls ident um = update_memory env s calls ident um
   \<and> async_delete_memory env a calls ident = delete_memory env s calls ident
   \<and> async_search_memories env a calls sm = search_memories env s calls sm
   \<and> async_create_namespace env a calls cn = create_namespace env s calls cn
   \<and> async_get_namespace env a calls ident = get_namespace env s calls ident
   \<and> async_update_namespace env a calls ident un = update_namespace env s calls ident un
   \<and> async_delete_namespace env a calls ident = delete_namespace env s calls ident
   \<and> async_list_namespaces env a calls opts = list_namespaces env s calls opts
   \<and> async_list_namespace_memories env a calls ident opts
     = list_namespace_memories env s calls ident opts
   \<and> async_get_context env a calls gc = get_context env s calls gc
   \<and> async_remember env a calls ns cont = remember env s calls ns cont
   \<and> async_recall env a calls q qns budget prompt score scores
     = recall env s calls q qns budget prompt score scores
   \<and> async_forget env a calls ident = forget env s calls ident"
proof -
  note r = async_request_eq [OF same]
  have init: "AsyncMAIAClient.base_url (AsyncMAIAClient_init url tmo hdrs)
     = MAIAClient.base_url (MAIAClient_init url tmo hdrs)"
    by (simp add: AsyncMAIAClient_init_def MAIAClient_init_def Let_def)
  have cm: "async_create_memory env a calls x = create_memory env s calls x" for x
    by (simp add: async_create_memory_def create_memory_def r)
  have gc: "async_get_context env a calls x = get_context env s calls x" for x
    by (simp add: async_get_context_def get_context_def r)
  have dm: "async_delete_memory env a calls x = delete_memory env s calls x" for x
    by (simp add: async_delete_memory_def delete_memory_def r)
  have ops: "async_health env a calls = health env s calls"
    "async_ready env a calls = ready env s calls"
    "async_stats env a calls = stats env s calls"
    "async_get_memory env a calls ident = get_memory env s calls ident"
    "async_update_memory env a calls ident um = update_memory env s calls ident um"
    "async_search_memories env a calls sm = search_memories env s calls sm"
    "async_create_namespace env a calls cn = create_namespace env s calls cn"
    "async_get_namespace env a calls ident = get_namespace env s calls ident"
    "async_update_namespace env a calls ident un = update_namespace env s calls ident un"
    "async_delete_namespace env a calls ident = delete_namespace env s calls ident"
    "async_list_namespaces env a calls opts = list_namespaces env s calls opts"
    "async_list_namespace_memories env a calls ident opts
       = list_namespace_memories env s calls ident opts"
    by (simp_all add: async_health_def health_def async_ready_def ready_def
        async_stats_def stats_def async_get_memory_def get_memory_def
        async_update_memory_def update_memory_def async_search_memories_def
        search_memories_def async_create_namespace_def create_namespace_def
        async_get_namespace_def get_namespace_def async_update_namespace_def
        update_namespace_def async_delete_namespace_def delete_namespace_def
        async_list_namespaces_def list_namespaces_def
        async_list_namespace_memories_def list_namespace_memories_def r)
  have wr: "async_remember env a calls ns cont = remember env s calls ns cont"
    "async_recall env a calls q qns budget prompt score scores
       = recall env s calls q qns budget prompt score scores"
    "async_forget env a calls ident = forget env s calls ident"
    by (simp_all add: async_remember_def remember_def async_recall_def recall_def
        async_forget_def forget_def cm gc dm)
  show ?thesis
    by (simp add: init init_same_client r cm gc dm ops wr)
qed

theorem C5_sync_async_agree_witness:
  "async_get_memory (mock (Response not_found_response)) local_async_client [] ''nonexistent''
     = get_memory (mock (Response not_found_response)) local_client [] ''nonexistent''
   \<and> async_create_memory (mock (Response not_found_response)) local_async_client []
       test_memory_input
     = create_memory (mock (Response not_found_response)) local_client [] test_memory_input
   \<and> async_ready (mock (Response (text_response 200 ''OK''))) local_async_client []
     = ready (mock (Response (text_response 200 ''OK''))) local_client []"
  using
    C5_sync_async_agree [where env = "mock (Response not_found_response)"
      and a = local_async_client and s = local_client and calls = "[]"
      and ident = "''nonexistent''" and cm = test_memory_input]
    C5_sync_async_agree [where env = "mock (Response (text_response 200 ''OK''))"
      and a = local_async_client and s = local_client and calls = "[]"]
  by (simp add: local_client_def local_async_client_def init_same_client)

section \<open>Identifiers in the path\<close>









lemma quote_utf8: "quote [CHR 0xC3, CHR 0xA9] [] = ''%C3%A9''"
  by code_simp




section \<open>What an operation can raise\<close>









end
